theory Spec2Isabelle
  imports Main
begin

section \<open>Moira: subscriptions, notifications, process start-up and shutdown\<close>

text \<open>
  A Go \<^verbatim>\<open>error\<close> is modelled by its message; \<^verbatim>\<open>nil\<close> is \<open>None\<close>.
\<close>

type_synonym error = string

definition fmt_Errorf :: "string \<Rightarrow> error option" where
  "fmt_Errorf msg = Some msg"

subsection \<open>api/dto/subscription.go\<close>

text \<open>
  \<^verbatim>\<open>type Subscription moira.SubscriptionData\<close>. The struct is declared outside the
  files at hand; \<open>Tags\<close> and \<open>Contacts\<close> are the fields \<^verbatim>\<open>Bind\<close> reads, the other
  fields follow the data model (id, schedule, throttling, sendings enabled, plotting
  enabled). The schedule is kept as a type parameter.
\<close>

record 'sched Subscription =
  ID :: string
  Tags :: "string list"
  Contacts :: "string list"
  Schedule :: 'sched
  ThrottlingEnabled :: bool
  SendingsEnabled :: bool
  PlottingEnabled :: bool

text \<open>
  \<^verbatim>\<open>func (subscription *Subscription) Bind(r *http.Request) error\<close>.
  The receiver is a pointer, so the model returns the subscription as the method leaves
  it, next to the error. The request is not read.
\<close>

definition Bind :: "'sched Subscription \<Rightarrow> 'req \<Rightarrow> error option \<times> 'sched Subscription" where
  "Bind subscription r =
     (if length (Tags subscription) = 0 then
        (fmt_Errorf ''subscription must have tags'', subscription)
      else if length (Contacts subscription) = 0 then
        (fmt_Errorf ''subscription must have contacts'', subscription)
      else (None, subscription))"

subsection \<open>The process entry point: flags\<close>

text \<open>
  \<^verbatim>\<open>flag.Parse()\<close> belongs to the Go library; the model starts from what it leaves in
  the three flag variables. A flag that is absent from the command line keeps the default
  given at its declaration:
  \<^verbatim>\<open>flag.String("config", "moira.yml", ...)\<close>,
  \<^verbatim>\<open>flag.Bool("version", false, ...)\<close>,
  \<^verbatim>\<open>flag.Bool("default-config", false, ...)\<close>.
\<close>

record cmdline =
  flag_config :: "string option"
  flag_version :: "bool option"
  flag_default_config :: "bool option"

definition configFileName :: "cmdline \<Rightarrow> string" where
  "configFileName cl = (case flag_config cl of None \<Rightarrow> ''moira.yml'' | Some path \<Rightarrow> path)"

definition printVersion :: "cmdline \<Rightarrow> bool" where
  "printVersion cl = (case flag_version cl of None \<Rightarrow> False | Some b \<Rightarrow> b)"

definition printDefaultConfigFlag :: "cmdline \<Rightarrow> bool" where
  "printDefaultConfigFlag cl = (case flag_default_config cl of None \<Rightarrow> False | Some b \<Rightarrow> b)"

text \<open>
  The version variables keep their initial value \<^verbatim>\<open>"unknown"\<close> unless the build
  overrides them.
\<close>

definition Version :: string where "Version = ''unknown''"
definition GitHash :: string where "GitHash = ''unknown''"
definition GoVersion :: string where "GoVersion = ''unknown''"

subsection \<open>The process entry point: what it does to the outside\<close>

datatype component = API | Filter | SelfState | FetchEvents | FetchNotifications | Checker

datatype signal = SIGINT | SIGTERM

datatype level = Info | Error | Fatal

text \<open>
  The calls of \<^verbatim>\<open>main\<close> that leave the function, in the order they are made.
  \<open>Start c\<close> and \<open>Stop c\<close> are the calls of a component's \<^verbatim>\<open>Start()\<close> and
  \<^verbatim>\<open>Stop()\<close>; \<open>PrintConfig c\<close> is \<^verbatim>\<open>cmd.PrintConfig(c)\<close>. Constructors that
  cannot fail (\<^verbatim>\<open>redis.NewDatabase\<close>, \<^verbatim>\<open>notifier.NewNotifier\<close>, the metrics
  registries, \<^verbatim>\<open>signal.Notify\<close>) change no control flow and are left out.
\<close>

datatype 'cfg action =
    Stdout string
  | Stderr string
  | PrintConfig 'cfg
  | ReadConfig string
  | ConfigureLog string
  | Start component
  | RegisterSenders
  | MetricsInit
  | Log level string
  | Stop component
  | DeregisterBots

text \<open>
  How the process ends: \<^verbatim>\<open>os.Exit(n)\<close> (returning from \<^verbatim>\<open>main\<close> is exit code 0),
  or never, when it waits on the signal channel and no signal arrives.
\<close>

datatype outcome = Exit int | Blocked

text \<open>
  What the outside answers in one run: the default configuration, and the error (or nil)
  of every fallible call.
\<close>

record 'cfg world =
  getDefault :: 'cfg
  ReadConfig_err :: "string \<Rightarrow> error option"
  ConfigureLog_err :: "string \<Rightarrow> error option"
  apiServer_Start_err :: "error option"
  filterServer_Start_err :: "error option"
  RegisterSenders_err :: "error option"
  selfState_Start_err :: "error option"
  checkerWorker_Start_err :: "error option"
  metrics_Init_err :: "error option"
  incoming_signal :: "signal option"
  filterServer_Stop_err :: "error option"
  checkerWorker_Stop_err :: "error option"
  apiServer_Stop_err :: "error option"

definition newline :: string where
  "newline = [CHR 0x0A]"

fun join_spaces :: "string list \<Rightarrow> string" where
  "join_spaces [] = []"
| "join_spaces [x] = x"
| "join_spaces (x # y # ys) = x @ '' '' @ join_spaces (y # ys)"

text \<open>\<^verbatim>\<open>fmt.Println\<close>: the operands separated by spaces, then a newline, on stdout.\<close>

definition fmt_Println :: "string list \<Rightarrow> 'cfg action" where
  "fmt_Println args = Stdout (join_spaces args @ newline)"

text \<open>\<^verbatim>\<open>os.Signal\<close> values print as the Go runtime names them.\<close>

fun signal_String :: "signal \<Rightarrow> string" where
  "signal_String SIGINT = ''interrupt''"
| "signal_String SIGTERM = ''terminated''"

text \<open>
  A statement of \<^verbatim>\<open>main\<close> contributes calls and either ends the process or falls
  through to the next statement.
\<close>

type_synonym 'cfg stmt = "'cfg action list \<times> outcome option"

fun run :: "'cfg stmt list \<Rightarrow> 'cfg action list \<times> outcome" where
  "run [] = ([], Exit 0)"
| "run ((acts, Some out) # rest) = (acts, out)"
| "run ((acts, None) # rest) = (case run rest of (later, out) \<Rightarrow> (acts @ later, out))"

definition call :: "'cfg action \<Rightarrow> 'cfg stmt" where
  "call a = ([a], None)"

text \<open>
  \<^verbatim>\<open>if err != nil { fmt.Fprintf(os.Stderr, format, err); os.Exit(1) }\<close>
\<close>

definition exit_on :: "error option \<Rightarrow> (error \<Rightarrow> string) \<Rightarrow> 'cfg stmt" where
  "exit_on err format =
     (case err of None \<Rightarrow> ([], None) | Some e \<Rightarrow> ([Stderr (format e)], Some (Exit 1)))"

text \<open>
  \<^verbatim>\<open>if err != nil { log.Fatalf(format, err) }\<close>: \<^verbatim>\<open>Fatalf\<close> writes the record and
  ends the process with exit code 1.
\<close>

definition fatal_on :: "error option \<Rightarrow> (error \<Rightarrow> string) \<Rightarrow> 'cfg stmt" where
  "fatal_on err format =
     (case err of None \<Rightarrow> ([], None) | Some e \<Rightarrow> ([Log Fatal (format e)], Some (Exit 1)))"

text \<open>\<^verbatim>\<open>if err != nil { log.Errorf(format, err) }\<close>: logged, and the run goes on.\<close>

definition error_on :: "error option \<Rightarrow> (error \<Rightarrow> string) \<Rightarrow> 'cfg stmt" where
  "error_on err format =
     (case err of None \<Rightarrow> ([], None) | Some e \<Rightarrow> ([Log Error (format e)], None))"

text \<open>\<^verbatim>\<open>log.Info(<-ch)\<close>: blocks until SIGINT or SIGTERM arrives, then logs it.\<close>

definition wait_signal :: "signal option \<Rightarrow> 'cfg stmt" where
  "wait_signal sig =
     (case sig of None \<Rightarrow> ([], Some Blocked) | Some s \<Rightarrow> ([Log Info (signal_String s)], None))"

text \<open>Lines 40 to 53: \<^verbatim>\<open>--version\<close> is looked at first, then \<^verbatim>\<open>--default-config\<close>.\<close>

definition version_stmt :: "cmdline \<Rightarrow> 'cfg stmt" where
  "version_stmt cl =
     (if printVersion cl then
        ([fmt_Println [''Moira - alerting system based on graphite data''],
          fmt_Println [''Version:'', Version],
          fmt_Println [''Git Commit:'', GitHash],
          fmt_Println [''Go Version:'', GoVersion]], Some (Exit 0))
      else ([], None))"

definition default_config_stmt :: "cmdline \<Rightarrow> 'cfg \<Rightarrow> 'cfg stmt" where
  "default_config_stmt cl config =
     (if printDefaultConfigFlag cl then ([PrintConfig config], Some (Exit 0)) else ([], None))"

text \<open>Lines 55 to 163: configuration, loggers, and the components in the order API, Filter,
  Notifier (senders, self state, the two fetchers), Checker, metrics.\<close>

definition startup :: "cmdline \<Rightarrow> 'cfg world \<Rightarrow> 'cfg stmt list" where
  "startup cl w =
     [version_stmt cl,
      default_config_stmt cl (getDefault w),
      call (ReadConfig (configFileName cl)),
      exit_on (ReadConfig_err w (configFileName cl))
        (\<lambda>err. ''Can't read settings: '' @ err @ newline),
      call (ConfigureLog ''main''),
      exit_on (ConfigureLog_err w ''main'')
        (\<lambda>err. ''Can't configure main logger: '' @ err @ newline),
      call (ConfigureLog ''api''),
      fatal_on (ConfigureLog_err w ''api'')
        (\<lambda>err. ''Can't configure logger for API: '' @ err @ newline),
      call (Start API),
      fatal_on (apiServer_Start_err w) (\<lambda>err. ''Can't start API: '' @ err),
      call (ConfigureLog ''filter''),
      fatal_on (ConfigureLog_err w ''filter'')
        (\<lambda>err. ''Can't configure logger for Filter: '' @ err @ newline),
      call (Start Filter),
      fatal_on (filterServer_Start_err w) (\<lambda>err. ''Can't start Filter: '' @ err),
      call (ConfigureLog ''notifier''),
      fatal_on (ConfigureLog_err w ''notifier'')
        (\<lambda>err. ''Can't configure logger for Filter: '' @ err @ newline),
      call RegisterSenders,
      fatal_on (RegisterSenders_err w) (\<lambda>err. ''Can't configure senders: '' @ err),
      call (Start SelfState),
      fatal_on (selfState_Start_err w) (\<lambda>err. ''SelfState failed: '' @ err),
      call (Start FetchEvents),
      call (Start FetchNotifications),
      call (ConfigureLog ''checker''),
      fatal_on (ConfigureLog_err w ''checker'')
        (\<lambda>err. ''Can't configure logger for Checker: '' @ err @ newline),
      call (Start Checker),
      fatal_on (checkerWorker_Start_err w) (\<lambda>err. ''Start Checker failed: '' @ err),
      call MetricsInit,
      error_on (metrics_Init_err w) (\<lambda>err. err),
      call (Log Info (''Moira Started (version: '' @ Version @ '')''))]"

text \<open>Lines 166 to 193: wait for the signal, then stop Filter, Notifier, Checker, API.\<close>

definition shutdown :: "'cfg world \<Rightarrow> 'cfg stmt list" where
  "shutdown w =
     [wait_signal (incoming_signal w),
      call (Stop Filter),
      error_on (filterServer_Stop_err w) (\<lambda>err. ''Can't stop Filer: '' @ err),
      call (Log Info ''Filter stopped''),
      call (Stop SelfState),
      call (Stop FetchEvents),
      call (Stop FetchNotifications),
      call DeregisterBots,
      call (Log Info ''Notifier stopped''),
      call (Stop Checker),
      error_on (checkerWorker_Stop_err w) (\<lambda>err. ''Stop Checker Failed: '' @ err),
      call (Log Info ''Checker stopped''),
      call (Stop API),
      error_on (apiServer_Stop_err w) (\<lambda>err. ''Can't stop API: '' @ err),
      call (Log Info ''API stopped''),
      call (Log Info (''Moira Stopped (version: '' @ Version @ '')''))]"

definition main :: "cmdline \<Rightarrow> 'cfg world \<Rightarrow> 'cfg action list \<times> outcome" where
  "main cl w = run (startup cl w @ shutdown w)"

text \<open>A run in which every call succeeds and the signal arrives, and a bare command line.\<close>

definition calm_world :: "signal \<Rightarrow> string world" where
  "calm_world s =
     \<lparr>getDefault = ''defaults'',
      ReadConfig_err = (\<lambda>path. None), ConfigureLog_err = (\<lambda>module. None),
      apiServer_Start_err = None, filterServer_Start_err = None,
      RegisterSenders_err = None, selfState_Start_err = None,
      checkerWorker_Start_err = None, metrics_Init_err = None,
      incoming_signal = Some s,
      filterServer_Stop_err = None, checkerWorker_Stop_err = None,
      apiServer_Stop_err = None\<rparr>"

definition no_flags :: cmdline where
  "no_flags = \<lparr>flag_config = None, flag_version = None, flag_default_config = None\<rparr>"

text \<open>\<open>precedes a b tr\<close>: \<open>a\<close> occurs in \<open>tr\<close>, and \<open>b\<close> occurs later than the first \<open>a\<close>.\<close>

fun precedes :: "'a \<Rightarrow> 'a \<Rightarrow> 'a list \<Rightarrow> bool" where
  "precedes a b [] = False"
| "precedes a b (x # xs) = (if x = a then b \<in> set xs else precedes a b xs)"

subsection \<open>The file a path names\<close>

text \<open>
  \<^verbatim>\<open>cmd.ReadConfig\<close> opens the file at the path it is given, and the operating system
  resolves a relative path against the working directory of the process. Which file a path
  names there is read off the path lexically, the way Go's \<^verbatim>\<open>filepath.Clean\<close> does
  it: the path is split at \<^verbatim>\<open>/\<close>; empty elements and \<^verbatim>\<open>.\<close> elements are
  dropped; a \<^verbatim>\<open>..\<close> element cancels the element before it, is dropped at the root,
  and is kept at the front of a relative path. A cleaned path is whether it is rooted,
  and its remaining elements.
\<close>

fun split_path :: "string \<Rightarrow> string list" where
  "split_path [] = [[]]"
| "split_path (c # cs) =
     (if c = CHR ''/'' then [] # split_path cs
      else (case split_path cs of [] \<Rightarrow> [[c]] | e # es \<Rightarrow> (c # e) # es))"

fun clean_onto :: "bool \<Rightarrow> string list \<Rightarrow> string list \<Rightarrow> string list" where
  "clean_onto rooted acc [] = rev acc"
| "clean_onto rooted acc (e # es) =
     (if e = [] \<or> e = ''.'' then clean_onto rooted acc es
      else if e = ''..'' then
        (case acc of
           [] \<Rightarrow> if rooted then clean_onto rooted [] es else clean_onto rooted [e] es
         | a # outer \<Rightarrow>
             if a = ''..'' then clean_onto rooted (e # acc) es else clean_onto rooted outer es)
      else clean_onto rooted (e # acc) es)"

definition filepath_Clean :: "string \<Rightarrow> bool \<times> string list" where
  "filepath_Clean path =
     (let rooted = (case path of [] \<Rightarrow> False | c # cs \<Rightarrow> c = CHR ''/'')
      in (rooted, clean_onto rooted [] (split_path path)))"

text \<open>Two paths, resolved in the same working directory, name the same file.\<close>

definition same_file :: "string \<Rightarrow> string \<Rightarrow> bool" where
  "same_file p q = (filepath_Clean p = filepath_Clean q)"

subsection \<open>The store behind the \<^verbatim>\<open>Database\<close> interface\<close>

text \<open>
  \<^verbatim>\<open>intefaces.go\<close> declares the interface \<^verbatim>\<open>Database\<close>; the store that implements
  it is not among the source files. The two operations below are modelled from the
  specification; a failing store (the \<^verbatim>\<open>error\<close> result of the interface) is not
  part of the model.
\<close>

text \<open>
  Modelled from the spec: the test behind "whose tags are a subset of \<open>trigger.tags\<close>",
  part of the missing body of \<^verbatim>\<open>Database.GetTagsSubscriptions\<close>: every tag of the
  first list occurs in the second.
\<close>

fun is_subset :: "string list \<Rightarrow> string list \<Rightarrow> bool" where
  "is_subset [] tags = True"
| "is_subset (t # ts) tags = (t \<in> set tags \<and> is_subset ts tags)"

text \<open>
  Modelled from the spec: the body of \<^verbatim>\<open>Database.GetTagsSubscriptions\<close> (declared at
  \<^verbatim>\<open>intefaces.go\<close> line 13), which "returns every subscription whose tags are a subset
  of \<open>trigger.tags\<close>". The store holds the subscriptions as a list, which is scanned.
\<close>

fun GetTagsSubscriptions ::
  "'sched Subscription list \<Rightarrow> string list \<Rightarrow> 'sched Subscription list" where
  "GetTagsSubscriptions [] tags = []"
| "GetTagsSubscriptions (s # stored) tags =
     (if is_subset (Tags s) tags then s # GetTagsSubscriptions stored tags
      else GetTagsSubscriptions stored tags)"

text \<open>
  Modelled from the spec: the struct \<^verbatim>\<open>ScheduledNotification\<close>, which the interface
  names and no source file declares: "(event, trigger snapshot, contact, send_at,
  throttled, needs_ack)", \<open>send_at\<close> in seconds.
\<close>

record ('ev, 'tr, 'ct) ScheduledNotification =
  event :: 'ev
  trigger :: 'tr
  contact :: 'ct
  send_at :: int
  throttled :: bool
  needs_ack :: bool

text \<open>
  Modelled from the spec: the body of \<^verbatim>\<open>Database.AddNotification\<close> (declared at
  \<^verbatim>\<open>intefaces.go\<close> line 18). Scheduled notifications are "inserted into a sorted set
  keyed by \<open>send_at\<close>": the set is a list in ascending order of \<open>send_at\<close>, and a new
  member goes to the place its key asks for.
\<close>

definition AddNotification ::
  "('ev, 'tr, 'ct) ScheduledNotification \<Rightarrow> ('ev, 'tr, 'ct) ScheduledNotification list
   \<Rightarrow> ('ev, 'tr, 'ct) ScheduledNotification list" where
  "AddNotification n zset = insort_key send_at n zset"

text \<open>
  Modelled from the spec: the body of \<^verbatim>\<open>Database.GetNotifications\<close> (declared at
  \<^verbatim>\<open>intefaces.go\<close> line 22): "atomically move all notifications with
  \<open>send_at \<le> now\<close> from the sorted set to a batch". One call reads the set from its
  low end while the key is at most the bound, and returns that batch together with the
  set that is left.
\<close>

definition GetNotifications ::
  "int \<Rightarrow> ('ev, 'tr, 'ct) ScheduledNotification list
   \<Rightarrow> ('ev, 'tr, 'ct) ScheduledNotification list \<times> ('ev, 'tr, 'ct) ScheduledNotification list" where
  "GetNotifications to zset =
     (takeWhile (\<lambda>n. send_at n \<le> to) zset, dropWhile (\<lambda>n. send_at n \<le> to) zset)"

text \<open>
  Modelled from the spec: the two users of the set, "notifications are created by the
  event fetcher and consumed by the notifications fetcher". \<open>store_after ops\<close> is the
  set that a sequence of additions and fetches leaves, starting from the empty set.
\<close>

datatype ('ev, 'tr, 'ct) store_op =
    Add "('ev, 'tr, 'ct) ScheduledNotification"
  | Fetch int

fun apply_op ::
  "('ev, 'tr, 'ct) store_op \<Rightarrow> ('ev, 'tr, 'ct) ScheduledNotification list
   \<Rightarrow> ('ev, 'tr, 'ct) ScheduledNotification list" where
  "apply_op (Add n) zset = AddNotification n zset"
| "apply_op (Fetch to) zset = snd (GetNotifications to zset)"

definition store_after ::
  "('ev, 'tr, 'ct) store_op list \<Rightarrow> ('ev, 'tr, 'ct) ScheduledNotification list" where
  "store_after ops = fold apply_op ops []"

definition notification_at :: "string \<Rightarrow> int \<Rightarrow> (string, string, string) ScheduledNotification" where
  "notification_at c t =
     \<lparr>event = ''OK to ERROR'', trigger = ''trigger1'', contact = c, send_at = t,
      throttled = False, needs_ack = False\<rparr>"

section \<open>Properties\<close>

subsection \<open>Running a list of statements\<close>

lemma run_calls: "a \<in> set (fst (run ps)) \<Longrightarrow> \<exists>p\<in>set ps. a \<in> set (fst p)"
  by (induction ps rule: run.induct) (auto split: prod.splits)

lemma run_append:
  "run (ps @ qs) =
     (if \<forall>p\<in>set ps. snd p = None then (concat (map fst ps) @ fst (run qs), snd (run qs))
      else run ps)"
  by (induction ps rule: run.induct) (auto split: prod.splits)

lemma in_call [simp]: "a \<in> set (fst (call b)) \<longleftrightarrow> a = b"
  by (auto simp: call_def)

lemma in_exit_on [simp]: "a \<in> set (fst (exit_on e f)) \<longleftrightarrow> (\<exists>x. e = Some x \<and> a = Stderr (f x))"
  by (cases e) (auto simp: exit_on_def)

lemma in_fatal_on [simp]: "a \<in> set (fst (fatal_on e f)) \<longleftrightarrow> (\<exists>x. e = Some x \<and> a = Log Fatal (f x))"
  by (cases e) (auto simp: fatal_on_def)

lemma in_error_on [simp]: "a \<in> set (fst (error_on e f)) \<longleftrightarrow> (\<exists>x. e = Some x \<and> a = Log Error (f x))"
  by (cases e) (auto simp: error_on_def)

lemma in_wait_signal [simp]:
  "a \<in> set (fst (wait_signal sg)) \<longleftrightarrow> (\<exists>s. sg = Some s \<and> a = Log Info (signal_String s))"
  by (cases sg) (auto simp: wait_signal_def)

lemma in_version_stmt: "a \<in> set (fst (version_stmt cl)) \<Longrightarrow> \<exists>s. a = Stdout s"
  by (auto simp: version_stmt_def fmt_Println_def split: if_splits)

lemma in_default_config_stmt [simp]:
  "a \<in> set (fst (default_config_stmt cl c)) \<longleftrightarrow> printDefaultConfigFlag cl \<and> a = PrintConfig c"
  by (auto simp: default_config_stmt_def)

lemma snd_call [simp]: "snd (call a) = None"
  by (simp add: call_def)

lemma snd_error_on [simp]: "snd (error_on e f) = None"
  by (cases e) (simp_all add: error_on_def)

lemma snd_fatal_on [simp]: "snd (fatal_on e f) = None \<longleftrightarrow> e = None"
  by (cases e) (simp_all add: fatal_on_def)

lemma snd_exit_on [simp]: "snd (exit_on e f) = None \<longleftrightarrow> e = None"
  by (cases e) (simp_all add: exit_on_def)

lemma snd_wait_signal [simp]: "snd (wait_signal sg) = None \<longleftrightarrow> sg \<noteq> None"
  by (cases sg) (simp_all add: wait_signal_def)

lemma startup_calls:
  assumes "p \<in> set (startup cl w)" and "a \<in> set (fst p)"
  shows "a \<noteq> DeregisterBots \<and> (\<forall>c. a \<noteq> Stop c) \<and> (\<forall>path. a = ReadConfig path \<longrightarrow> path = configFileName cl)"
  using assms in_version_stmt [of a cl] by (auto simp: startup_def)

lemma shutdown_calls:
  assumes "p \<in> set (shutdown w)" and "a \<in> set (fst p)"
  shows "(\<forall>c. a \<noteq> Start c) \<and> (\<forall>path. a \<noteq> ReadConfig path) \<and> (\<forall>c. a \<noteq> PrintConfig c)"
  using assms by (auto simp: shutdown_def)

lemma main_version:
  "printVersion cl \<Longrightarrow>
   main cl w =
     ([Stdout (''Moira - alerting system based on graphite data'' @ newline),
       Stdout (''Version: unknown'' @ newline),
       Stdout (''Git Commit: unknown'' @ newline),
       Stdout (''Go Version: unknown'' @ newline)], Exit 0)"
  by (simp add: main_def startup_def version_stmt_def fmt_Println_def Version_def GitHash_def GoVersion_def)

lemma main_default_config:
  "\<not> printVersion cl \<Longrightarrow> printDefaultConfigFlag cl \<Longrightarrow> main cl w = ([PrintConfig (getDefault w)], Exit 0)"
  by (simp add: main_def startup_def version_stmt_def default_config_stmt_def)

lemma main_read_failed:
  "\<not> printVersion cl \<Longrightarrow> \<not> printDefaultConfigFlag cl \<Longrightarrow>
   ReadConfig_err w (configFileName cl) = Some err \<Longrightarrow>
   main cl w = ([ReadConfig (configFileName cl), Stderr (''Can't read settings: '' @ err @ newline)], Exit 1)"
  by (simp add: main_def startup_def version_stmt_def default_config_stmt_def call_def exit_on_def)

subsection \<open>The calls of a run\<close>

lemma precedes_append:
  "a \<notin> set xs \<Longrightarrow> precedes a b (xs @ ys) = precedes a b ys"
  by (induction xs) auto

lemma read_config_path:
  assumes "ReadConfig path \<in> set (fst (main cl w))"
  shows "path = configFileName cl"
proof -
  from assms obtain p where p: "p \<in> set (startup cl w @ shutdown w)" "ReadConfig path \<in> set (fst p)"
    unfolding main_def by (blast dest: run_calls)
  then show ?thesis
    using startup_calls [of p cl w "ReadConfig path"] shutdown_calls [of p w "ReadConfig path"]
    by auto
qed

lemma startup_completed:
  assumes "DeregisterBots \<in> set (fst (main cl w))"
  shows "main cl w = (concat (map fst (startup cl w)) @ fst (run (shutdown w)), snd (run (shutdown w)))"
proof (cases "\<forall>p\<in>set (startup cl w). snd p = None")
  case True
  then show ?thesis by (simp add: main_def run_append)
next
  case False
  have "run (startup cl w @ shutdown w) = run (startup cl w)"
    unfolding run_append using False by (rule if_not_P)
  then have "main cl w = run (startup cl w)"
    by (simp add: main_def)
  with assms obtain p where "p \<in> set (startup cl w)" "DeregisterBots \<in> set (fst p)"
    by (auto dest: run_calls)
  then show ?thesis using startup_calls by blast
qed

lemma startup_no_stop:
  "DeregisterBots \<notin> set (concat (map fst (startup cl w)))"
  "Stop c \<notin> set (concat (map fst (startup cl w)))"
  using startup_calls by fastforce+

lemma shutdown_trace:
  "fst (run (shutdown w)) =
     (case incoming_signal w of None \<Rightarrow> []
      | Some s \<Rightarrow>
          [Log Info (signal_String s), Stop Filter] @ fst (error_on (filterServer_Stop_err w) (\<lambda>err. ''Can't stop Filer: '' @ err)) @
          [Log Info ''Filter stopped'', Stop SelfState, Stop FetchEvents, Stop FetchNotifications,
           DeregisterBots, Log Info ''Notifier stopped'', Stop Checker] @
          fst (error_on (checkerWorker_Stop_err w) (\<lambda>err. ''Stop Checker Failed: '' @ err)) @
          [Log Info ''Checker stopped'', Stop API] @
          fst (error_on (apiServer_Stop_err w) (\<lambda>err. ''Can't stop API: '' @ err)) @
          [Log Info ''API stopped'', Log Info (''Moira Stopped (version: '' @ Version @ '')'')])"
  by (cases "incoming_signal w"; cases "filterServer_Stop_err w"; cases "checkerWorker_Stop_err w";
      cases "apiServer_Stop_err w")
     (simp_all add: shutdown_def call_def error_on_def wait_signal_def)

lemma config_is_read:
  "\<not> printVersion cl \<Longrightarrow> \<not> printDefaultConfigFlag cl \<Longrightarrow>
   ReadConfig (configFileName cl) \<in> set (fst (main cl w))"
  by (simp add: main_def startup_def version_stmt_def default_config_stmt_def call_def
      split: prod.splits)

lemma calm_run:
  "fst (main no_flags (calm_world s)) =
     [ReadConfig ''moira.yml'', ConfigureLog ''main'', ConfigureLog ''api'', Start API,
      ConfigureLog ''filter'', Start Filter, ConfigureLog ''notifier'', RegisterSenders,
      Start SelfState, Start FetchEvents, Start FetchNotifications, ConfigureLog ''checker'',
      Start Checker, MetricsInit, Log Info ''Moira Started (version: unknown)'',
      Log Info (signal_String s), Stop Filter, Log Info ''Filter stopped'', Stop SelfState,
      Stop FetchEvents, Stop FetchNotifications, DeregisterBots, Log Info ''Notifier stopped'',
      Stop Checker, Log Info ''Checker stopped'', Stop API, Log Info ''API stopped'',
      Log Info ''Moira Stopped (version: unknown)'']"
  by (simp add: main_def startup_def shutdown_def version_stmt_def default_config_stmt_def
      call_def exit_on_def fatal_on_def error_on_def wait_signal_def calm_world_def no_flags_def
      printVersion_def printDefaultConfigFlag_def configFileName_def Version_def)

subsection \<open>Shutdown order\<close>

text \<open>
  C5, as stated, fails. In a run where every component starts and SIGTERM arrives, the
  bots are deregistered, and neither the Checker nor the API has been stopped before that:
  no \<open>DeregisterBots\<close> follows \<open>Stop Checker\<close> or \<open>Stop API\<close>.
\<close>

theorem deregister_bots_before_checker_and_api:
  "DeregisterBots \<in> set (fst (main no_flags (calm_world SIGTERM)))
   \<and> \<not> precedes (Stop Checker) DeregisterBots (fst (main no_flags (calm_world SIGTERM)))
   \<and> \<not> precedes (Stop API) DeregisterBots (fst (main no_flags (calm_world SIGTERM)))"
  by (simp add: calm_run)

text \<open>
  C5, amended. In every run that deregisters the bots, the deregistration comes after the
  Filter and the three Notifier workers (self state, event fetcher, notification fetcher)
  have been stopped, and before the Checker and the API are stopped.
\<close>

theorem deregister_bots_order:
  assumes "DeregisterBots \<in> set (fst (main cl w))"
  shows "precedes (Stop Filter) DeregisterBots (fst (main cl w))
       \<and> precedes (Stop SelfState) DeregisterBots (fst (main cl w))
       \<and> precedes (Stop FetchEvents) DeregisterBots (fst (main cl w))
       \<and> precedes (Stop FetchNotifications) DeregisterBots (fst (main cl w))
       \<and> precedes DeregisterBots (Stop Checker) (fst (main cl w))
       \<and> precedes DeregisterBots (Stop API) (fst (main cl w))
       \<and> \<not> precedes (Stop Checker) DeregisterBots (fst (main cl w))
       \<and> \<not> precedes (Stop API) DeregisterBots (fst (main cl w))"
proof -
  let ?pre = "concat (map fst (startup cl w))"
  have tr: "fst (main cl w) = ?pre @ fst (run (shutdown w))"
    using startup_completed [OF assms] by simp
  from assms tr have "DeregisterBots \<in> set (fst (run (shutdown w)))"
    using startup_no_stop(1) [of cl w] by simp
  then obtain s where s: "incoming_signal w = Some s"
    by (cases "incoming_signal w") (simp_all add: shutdown_trace)
  have stop_pre: "precedes (Stop c) b (?pre @ ys) = precedes (Stop c) b ys" for c b ys
    by (rule precedes_append [OF startup_no_stop(2)])
  have bots_pre: "precedes DeregisterBots b (?pre @ ys) = precedes DeregisterBots b ys" for b ys
    by (rule precedes_append [OF startup_no_stop(1)])
  show ?thesis
    unfolding tr stop_pre bots_pre
    by (cases "filterServer_Stop_err w"; cases "checkerWorker_Stop_err w";
        cases "apiServer_Stop_err w")
       (simp_all add: shutdown_trace s error_on_def)
qed

theorem deregister_bots_order_witness:
  "DeregisterBots \<in> set (fst (main no_flags (calm_world SIGINT)))
   \<and> precedes (Stop Filter) DeregisterBots (fst (main no_flags (calm_world SIGINT)))
   \<and> precedes (Stop FetchNotifications) DeregisterBots (fst (main no_flags (calm_world SIGINT)))
   \<and> precedes DeregisterBots (Stop Checker) (fst (main no_flags (calm_world SIGINT)))
   \<and> precedes DeregisterBots (Stop API) (fst (main no_flags (calm_world SIGINT)))"
proof -
  have h: "DeregisterBots \<in> set (fst (main no_flags (calm_world SIGINT)))"
    by (simp add: calm_run)
  from deregister_bots_order [OF h] h show ?thesis by simp
qed

subsection \<open>Configuration at start-up\<close>

text \<open>
  C6. If reading the configuration file fails (the file is read, and the read returns an
  error), the process writes the diagnostic to stderr and exits with code 1; its calls are
  the read and the message only, so no component is started.
\<close>

theorem read_config_failure_exits:
  assumes "ReadConfig path \<in> set (fst (main cl w))"
    and "ReadConfig_err w path = Some err"
  shows "fst (main cl w) = [ReadConfig path, Stderr (''Can't read settings: '' @ err @ newline)]
       \<and> snd (main cl w) = Exit 1
       \<and> (\<forall>c. Start c \<notin> set (fst (main cl w)))"
proof -
  have nv: "\<not> printVersion cl"
    using assms(1) by (auto simp: main_version)
  have nd: "\<not> printDefaultConfigFlag cl"
    using assms(1) nv by (auto simp: main_default_config)
  have path: "path = configFileName cl"
    using assms(1) by (rule read_config_path)
  have "main cl w = ([ReadConfig path, Stderr (''Can't read settings: '' @ err @ newline)], Exit 1)"
    using main_read_failed [OF nv nd] assms(2) path by simp
  then show ?thesis by simp
qed

theorem read_config_failure_exits_witness:
  "ReadConfig ''moira.yml''
     \<in> set (fst (main no_flags ((calm_world SIGTERM)\<lparr>ReadConfig_err := \<lambda>path. Some ''no such file''\<rparr>)))
   \<and> fst (main no_flags ((calm_world SIGTERM)\<lparr>ReadConfig_err := \<lambda>path. Some ''no such file''\<rparr>))
       = [ReadConfig ''moira.yml'', Stderr (''Can't read settings: no such file'' @ newline)]
   \<and> snd (main no_flags ((calm_world SIGTERM)\<lparr>ReadConfig_err := \<lambda>path. Some ''no such file''\<rparr>))
       = Exit 1
   \<and> Start API
       \<notin> set (fst (main no_flags ((calm_world SIGTERM)\<lparr>ReadConfig_err := \<lambda>path. Some ''no such file''\<rparr>)))"
proof -
  let ?w = "(calm_world SIGTERM)\<lparr>ReadConfig_err := \<lambda>path. Some ''no such file''\<rparr>"
  have nv: "\<not> printVersion no_flags" and nd: "\<not> printDefaultConfigFlag no_flags"
    and path: "configFileName no_flags = ''moira.yml''"
    by (simp_all add: no_flags_def printVersion_def printDefaultConfigFlag_def configFileName_def)
  have h1: "ReadConfig ''moira.yml'' \<in> set (fst (main no_flags ?w))"
    using config_is_read [OF nv nd, of ?w] path by simp
  have h2: "ReadConfig_err ?w ''moira.yml'' = Some ''no such file''"
    by simp
  from read_config_failure_exits [OF h1 h2] h1 show ?thesis by simp
qed

lemma default_path_same_file: "same_file ''moira.yml'' ''./moira.yml''"
  by (simp add: same_file_def filepath_Clean_def)

text \<open>
  C8. When \<^verbatim>\<open>--config\<close> is not given, the configuration file path used is
  \<^verbatim>\<open>./moira.yml\<close>: the flag's default, spelled \<^verbatim>\<open>moira.yml\<close>, names the same file
  of the working directory; every path a run hands to \<^verbatim>\<open>cmd.ReadConfig\<close> names that
  file; and a run without \<^verbatim>\<open>--version\<close> and \<^verbatim>\<open>--default-config\<close> does read it.
\<close>

theorem default_config_path:
  assumes "flag_config cl = None"
  shows "configFileName cl = ''moira.yml''
       \<and> same_file (configFileName cl) ''./moira.yml''
       \<and> (\<forall>path. ReadConfig path \<in> set (fst (main cl w)) \<longrightarrow> same_file path ''./moira.yml'')
       \<and> (\<not> printVersion cl \<and> \<not> printDefaultConfigFlag cl \<longrightarrow>
            ReadConfig (configFileName cl) \<in> set (fst (main cl w)))"
proof -
  have name: "configFileName cl = ''moira.yml''"
    using assms by (simp add: configFileName_def)
  moreover have same: "same_file (configFileName cl) ''./moira.yml''"
    unfolding name by (rule default_path_same_file)
  moreover have "same_file path ''./moira.yml''"
    if "ReadConfig path \<in> set (fst (main cl w))" for path
    using read_config_path [OF that] same by simp
  moreover have "ReadConfig (configFileName cl) \<in> set (fst (main cl w))"
    if "\<not> printVersion cl" "\<not> printDefaultConfigFlag cl"
    using that by (rule config_is_read)
  ultimately show ?thesis by blast
qed

theorem default_config_path_witness:
  "flag_config no_flags = None
   \<and> same_file (configFileName no_flags) ''./moira.yml''
   \<and> ReadConfig ''moira.yml'' \<in> set (fst (main no_flags (calm_world SIGTERM)))
   \<and> \<not> same_file ''/etc/moira.yml'' ''./moira.yml''
   \<and> \<not> same_file ''conf/moira.yml'' ''./moira.yml''"
proof -
  have h: "flag_config no_flags = None"
    by (simp add: no_flags_def)
  have nv: "\<not> printVersion no_flags" and nd: "\<not> printDefaultConfigFlag no_flags"
    by (simp_all add: no_flags_def printVersion_def printDefaultConfigFlag_def)
  have other: "\<not> same_file ''/etc/moira.yml'' ''./moira.yml''"
    "\<not> same_file ''conf/moira.yml'' ''./moira.yml''"
    by (simp_all add: same_file_def filepath_Clean_def)
  from default_config_path [OF h, of "calm_world SIGTERM"] h nv nd other show ?thesis
    by auto
qed

text \<open>
  C9, as stated, fails: \<^verbatim>\<open>--version\<close> is handled first, so a command line with both
  \<^verbatim>\<open>--version\<close> and \<^verbatim>\<open>--default-config\<close> prints the four version lines and exits
  without printing the default configuration.
\<close>

theorem default_config_not_printed_with_version:
  "printDefaultConfigFlag
     \<lparr>flag_config = None, flag_version = Some True, flag_default_config = Some True\<rparr>
   \<and> main \<lparr>flag_config = None, flag_version = Some True, flag_default_config = Some True\<rparr>
       (calm_world SIGTERM)
     = ([Stdout (''Moira - alerting system based on graphite data'' @ newline),
         Stdout (''Version: unknown'' @ newline),
         Stdout (''Git Commit: unknown'' @ newline),
         Stdout (''Go Version: unknown'' @ newline)], Exit 0)"
  by (simp add: main_version printVersion_def printDefaultConfigFlag_def)

text \<open>
  C9, amended. When invoked with \<^verbatim>\<open>--default-config\<close>, the process reads no
  configuration file and exits with code 0. Without \<^verbatim>\<open>--version\<close> its only call is
  \<^verbatim>\<open>cmd.PrintConfig\<close> on the default configuration. With \<^verbatim>\<open>--version\<close> it prints
  the version information instead: its calls are the four lines on stdout, and the
  default configuration is not printed.
\<close>

theorem default_config_flag_prints:
  assumes "printDefaultConfigFlag cl"
  shows "snd (main cl w) = Exit 0
       \<and> (\<forall>path. ReadConfig path \<notin> set (fst (main cl w)))
       \<and> (\<not> printVersion cl \<longrightarrow> fst (main cl w) = [PrintConfig (getDefault w)])
       \<and> (printVersion cl \<longrightarrow>
            fst (main cl w) =
              [fmt_Println [''Moira - alerting system based on graphite data''],
               fmt_Println [''Version:'', Version],
               fmt_Println [''Git Commit:'', GitHash],
               fmt_Println [''Go Version:'', GoVersion]]
            \<and> PrintConfig (getDefault w) \<notin> set (fst (main cl w)))"
proof (cases "printVersion cl")
  case True
  then show ?thesis
    by (simp add: main_version fmt_Println_def Version_def GitHash_def GoVersion_def)
next
  case False
  then show ?thesis using assms by (simp add: main_default_config)
qed

theorem default_config_flag_prints_witness:
  "printDefaultConfigFlag
     \<lparr>flag_config = None, flag_version = None, flag_default_config = Some True\<rparr>
   \<and> main \<lparr>flag_config = None, flag_version = None, flag_default_config = Some True\<rparr>
       (calm_world SIGTERM)
     = ([PrintConfig ''defaults''], Exit 0)
   \<and> printDefaultConfigFlag
     \<lparr>flag_config = Some ''/etc/moira.yml'', flag_version = Some True,
      flag_default_config = Some True\<rparr>
   \<and> main \<lparr>flag_config = Some ''/etc/moira.yml'', flag_version = Some True,
              flag_default_config = Some True\<rparr> (calm_world SIGINT)
     = ([Stdout (''Moira - alerting system based on graphite data'' @ newline),
         Stdout (''Version: unknown'' @ newline),
         Stdout (''Git Commit: unknown'' @ newline),
         Stdout (''Go Version: unknown'' @ newline)], Exit 0)"
proof -
  let ?cl = "\<lparr>flag_config = None, flag_version = None, flag_default_config = Some True\<rparr>"
  let ?both = "\<lparr>flag_config = Some ''/etc/moira.yml'', flag_version = Some True,
                flag_default_config = Some True\<rparr>"
  have h: "printDefaultConfigFlag ?cl" and h': "printDefaultConfigFlag ?both"
    by (simp_all add: printDefaultConfigFlag_def)
  have nv: "\<not> printVersion ?cl" and v: "printVersion ?both"
    by (simp_all add: printVersion_def)
  have d: "getDefault (calm_world s) = ''defaults''" for s
    by (simp add: calm_world_def)
  from default_config_flag_prints [OF h, of "calm_world SIGTERM"]
    default_config_flag_prints [OF h', of "calm_world SIGINT"] nv v d h h'
  show ?thesis
    by (simp add: prod_eq_iff fmt_Println_def Version_def GitHash_def GoVersion_def)
qed

subsection \<open>Subscriptions of a trigger\<close>

lemma is_subset_iff: "is_subset ts tags \<longleftrightarrow> set ts \<subseteq> set tags"
  by (induction ts) auto

lemma GetTagsSubscriptions_filter:
  "GetTagsSubscriptions stored tags = filter (\<lambda>s. set (Tags s) \<subseteq> set tags) stored"
  by (induction stored) (simp_all add: is_subset_iff)

text \<open>
  C1. For every list of trigger tags, \<open>GetTagsSubscriptions\<close> returns exactly the stored
  subscriptions whose tag set is a subset of the trigger's tag set: a subscription is in
  the result if and only if it is stored and each of its tags is one of the trigger's.
\<close>

theorem GetTagsSubscriptions_exact:
  "s \<in> set (GetTagsSubscriptions stored tags) \<longleftrightarrow> s \<in> set stored \<and> set (Tags s) \<subseteq> set tags"
  by (simp add: GetTagsSubscriptions_filter)

theorem GetTagsSubscriptions_exact_witness:
  "\<lparr>ID = ''s1'', Tags = [''ops''], Contacts = [''c1''], Schedule = (),
     ThrottlingEnabled = True, SendingsEnabled = True, PlottingEnabled = False\<rparr>
     \<in> set (GetTagsSubscriptions
         [\<lparr>ID = ''s1'', Tags = [''ops''], Contacts = [''c1''], Schedule = (),
            ThrottlingEnabled = True, SendingsEnabled = True, PlottingEnabled = False\<rparr>,
          \<lparr>ID = ''s2'', Tags = [''ops'', ''db''], Contacts = [''c2''], Schedule = (),
            ThrottlingEnabled = True, SendingsEnabled = True, PlottingEnabled = False\<rparr>]
         [''web'', ''ops''])
   \<and> \<lparr>ID = ''s2'', Tags = [''ops'', ''db''], Contacts = [''c2''], Schedule = (),
     ThrottlingEnabled = True, SendingsEnabled = True, PlottingEnabled = False\<rparr>
     \<notin> set (GetTagsSubscriptions
         [\<lparr>ID = ''s1'', Tags = [''ops''], Contacts = [''c1''], Schedule = (),
            ThrottlingEnabled = True, SendingsEnabled = True, PlottingEnabled = False\<rparr>,
          \<lparr>ID = ''s2'', Tags = [''ops'', ''db''], Contacts = [''c2''], Schedule = (),
            ThrottlingEnabled = True, SendingsEnabled = True, PlottingEnabled = False\<rparr>]
         [''web'', ''ops''])"
  using
    GetTagsSubscriptions_exact [of
      "\<lparr>ID = ''s1'', Tags = [''ops''], Contacts = [''c1''], Schedule = (),
        ThrottlingEnabled = True, SendingsEnabled = True, PlottingEnabled = False\<rparr>"
      "[\<lparr>ID = ''s1'', Tags = [''ops''], Contacts = [''c1''], Schedule = (),
            ThrottlingEnabled = True, SendingsEnabled = True, PlottingEnabled = False\<rparr>,
          \<lparr>ID = ''s2'', Tags = [''ops'', ''db''], Contacts = [''c2''], Schedule = (),
            ThrottlingEnabled = True, SendingsEnabled = True, PlottingEnabled = False\<rparr>]"
      "[''web'', ''ops'']"]
    GetTagsSubscriptions_exact [of
      "\<lparr>ID = ''s2'', Tags = [''ops'', ''db''], Contacts = [''c2''], Schedule = (),
        ThrottlingEnabled = True, SendingsEnabled = True, PlottingEnabled = False\<rparr>"
      "[\<lparr>ID = ''s1'', Tags = [''ops''], Contacts = [''c1''], Schedule = (),
            ThrottlingEnabled = True, SendingsEnabled = True, PlottingEnabled = False\<rparr>,
          \<lparr>ID = ''s2'', Tags = [''ops'', ''db''], Contacts = [''c2''], Schedule = (),
            ThrottlingEnabled = True, SendingsEnabled = True, PlottingEnabled = False\<rparr>]"
      "[''web'', ''ops'']"]
  by simp

subsection \<open>Fetching due notifications\<close>

lemma sorted_AddNotification:
  "sorted (map send_at zset) \<Longrightarrow> sorted (map send_at (AddNotification n zset))"
  by (simp add: AddNotification_def sorted_insort_key)

lemma sorted_GetNotifications:
  "sorted (map send_at zset) \<Longrightarrow> sorted (map send_at (snd (GetNotifications to zset)))"
  by (simp add: GetNotifications_def sorted_wrt_map)

lemma due_prefix:
  "sorted (map send_at zset) \<Longrightarrow>
   takeWhile (\<lambda>n. send_at n \<le> to) zset = filter (\<lambda>n. send_at n \<le> to) zset"
proof (induction zset)
  case Nil
  then show ?case by simp
next
  case (Cons n zset)
  show ?case
  proof (cases "send_at n \<le> to")
    case True
    with Cons show ?thesis by simp
  next
    case False
    with Cons.prems have "\<forall>m\<in>set zset. \<not> send_at m \<le> to"
      by fastforce
    then have "filter (\<lambda>n. send_at n \<le> to) zset = []"
      by (simp add: filter_empty_conv)
    with False show ?thesis by simp
  qed
qed

lemma later_suffix:
  "sorted (map send_at zset) \<Longrightarrow>
   dropWhile (\<lambda>n. send_at n \<le> to) zset = filter (\<lambda>n. to < send_at n) zset"
proof (induction zset)
  case Nil
  then show ?case by simp
next
  case (Cons n zset)
  show ?case
  proof (cases "send_at n \<le> to")
    case True
    with Cons show ?thesis by simp
  next
    case False
    with Cons.prems have "\<forall>m\<in>set zset. to < send_at m"
      by fastforce
    then have "filter (\<lambda>n. to < send_at n) zset = zset"
      by (simp add: filter_id_conv)
    with False show ?thesis by simp
  qed
qed

lemma sorted_apply_op:
  "sorted (map send_at zset) \<Longrightarrow> sorted (map send_at (apply_op op zset))"
  by (cases op) (simp_all add: sorted_AddNotification sorted_GetNotifications)

lemma sorted_fold_apply_op:
  "sorted (map send_at zset) \<Longrightarrow> sorted (map send_at (fold apply_op ops zset))"
  by (induction ops arbitrary: zset) (simp_all add: sorted_apply_op)

lemma sorted_store_after: "sorted (map send_at (store_after ops))"
  by (simp add: store_after_def sorted_fold_apply_op)

text \<open>
  C3. Whatever was added to and fetched from the sorted set before, the batch of one fetch
  is exactly the scheduled notifications whose \<open>send_at\<close> is at most now, and the set
  left by the same fetch is exactly those with a later \<open>send_at\<close>: no due notification
  stays behind, none that is not yet due is taken.
\<close>

theorem GetNotifications_due:
  "fst (GetNotifications now (store_after ops))
     = filter (\<lambda>n. send_at n \<le> now) (store_after ops)
   \<and> snd (GetNotifications now (store_after ops))
     = filter (\<lambda>n. now < send_at n) (store_after ops)"
  using sorted_store_after [of ops]
  by (simp add: GetNotifications_def due_prefix later_suffix)

theorem GetNotifications_due_witness:
  "fst (GetNotifications 20
     (store_after [Add (notification_at ''c1'' 10), Add (notification_at ''c3'' 30),
        Add (notification_at ''c0'' 5), Fetch 7, Add (notification_at ''c2'' 20)]))
     = [notification_at ''c1'' 10, notification_at ''c2'' 20]
   \<and> snd (GetNotifications 20
     (store_after [Add (notification_at ''c1'' 10), Add (notification_at ''c3'' 30),
        Add (notification_at ''c0'' 5), Fetch 7, Add (notification_at ''c2'' 20)]))
     = [notification_at ''c3'' 30]"
proof -
  let ?ops = "[Add (notification_at ''c1'' 10), Add (notification_at ''c3'' 30),
        Add (notification_at ''c0'' 5), Fetch 7, Add (notification_at ''c2'' 20)]"
  have z: "store_after ?ops
      = [notification_at ''c1'' 10, notification_at ''c2'' 20, notification_at ''c3'' 30]"
    by (simp add: store_after_def AddNotification_def GetNotifications_def notification_at_def)
  from GetNotifications_due [of 20 ?ops] show ?thesis
    unfolding z by (simp add: notification_at_def)
qed

subsection \<open>Bind\<close>

text \<open>
  C10. For every subscription, \<open>Bind\<close> returns an error if and only if the tag list is
  empty or the contact list is empty; the tags are checked first (an empty tag list gives
  the tags message whatever the contacts are, and the contacts message appears only with
  a non-empty tag list); otherwise it returns nil; in every case the subscription is
  left as it was.
\<close>

theorem Bind_error_iff:
  "(fst (Bind s r) \<noteq> None \<longleftrightarrow> Tags s = [] \<or> Contacts s = []) \<and>
   (Tags s = [] \<longrightarrow> fst (Bind s r) = Some ''subscription must have tags'') \<and>
   (Tags s \<noteq> [] \<and> Contacts s = [] \<longrightarrow>
      fst (Bind s r) = Some ''subscription must have contacts'') \<and>
   (Tags s \<noteq> [] \<and> Contacts s \<noteq> [] \<longrightarrow> fst (Bind s r) = None) \<and>
   snd (Bind s r) = s"
  by (simp add: Bind_def fmt_Errorf_def)

theorem Bind_error_iff_witness:
  "fst (Bind \<lparr>ID = ''s1'', Tags = [], Contacts = [''c1''], Schedule = (),
        ThrottlingEnabled = True, SendingsEnabled = True, PlottingEnabled = False\<rparr> ())
     = Some ''subscription must have tags'' \<and>
   fst (Bind \<lparr>ID = ''s1'', Tags = [''ops''], Contacts = [], Schedule = (),
        ThrottlingEnabled = True, SendingsEnabled = True, PlottingEnabled = False\<rparr> ())
     = Some ''subscription must have contacts'' \<and>
   fst (Bind \<lparr>ID = ''s1'', Tags = [''ops''], Contacts = [''c1''], Schedule = (),
        ThrottlingEnabled = True, SendingsEnabled = True, PlottingEnabled = False\<rparr> ())
     = None"
  using
    Bind_error_iff [of "\<lparr>ID = ''s1'', Tags = [], Contacts = [''c1''], Schedule = (),
        ThrottlingEnabled = True, SendingsEnabled = True, PlottingEnabled = False\<rparr>" "()"]
    Bind_error_iff [of "\<lparr>ID = ''s1'', Tags = [''ops''], Contacts = [], Schedule = (),
        ThrottlingEnabled = True, SendingsEnabled = True, PlottingEnabled = False\<rparr>" "()"]
    Bind_error_iff [of "\<lparr>ID = ''s1'', Tags = [''ops''], Contacts = [''c1''], Schedule = (),
        ThrottlingEnabled = True, SendingsEnabled = True, PlottingEnabled = False\<rparr>" "()"]
  by simp

end
